theory Spec2Isabelle
  imports Complex_Main
begin

section \<open>JavaScript values\<close>

text \<open>
  The server of \<^verbatim>\<open>mission-control-server.js\<close> works on the value that
  \<^verbatim>\<open>JSON.parse\<close> returns. Such a value is null, a boolean, a Number, a string, an
  array or a plain object. A Number that comes out of a JSON text is a finite double (a
  real number here; the two zeros are one value) or, for a literal that overflows, one
  of the infinities. An object is the list of its own properties in enumeration order.
\<close>

datatype jsnumber = Finite real | PosInfinity | NegInfinity

datatype jsval =
    JNull
  | JBoolean bool
  | JNumber jsnumber
  | JString string
  | JArray "jsval list"
  | JObject "(string \<times> jsval) list"

text \<open>
  What the code can throw: \<^verbatim>\<open>JSON.parse\<close> on a malformed text, a property access on
  null or a conversion to a string (both a TypeError), a serialization or a conversion
  that runs out of stack on a deeply nested value (a RangeError), \<^verbatim>\<open>send\<close> of the
  ws library on a socket that is still connecting, and \<^verbatim>\<open>writeHead\<close> on a response
  whose head is already written.
\<close>

datatype js_error = SyntaxError | TypeError | RangeError | NotOpenError | ERR_HTTP_HEADERS_SENT

text \<open>
  \<^verbatim>\<open>!x\<close> is the negation of ToBoolean. The result of a property read is
  \<open>None\<close> for \<^verbatim>\<open>undefined\<close>.
\<close>

fun ToBoolean :: "jsval option \<Rightarrow> bool" where
  "ToBoolean None = False"
| "ToBoolean (Some JNull) = False"
| "ToBoolean (Some (JBoolean b)) = b"
| "ToBoolean (Some (JNumber (Finite r))) = (r \<noteq> 0)"
| "ToBoolean (Some (JNumber PosInfinity)) = True"
| "ToBoolean (Some (JNumber NegInfinity)) = True"
| "ToBoolean (Some (JString s)) = (s \<noteq> [])"
| "ToBoolean (Some (JArray vs)) = True"
| "ToBoolean (Some (JObject props)) = True"

text \<open>
  \<^verbatim>\<open>telemetryData.P\<close> for the three names the handler reads (agentId, status,
  timestamp), which no built-in prototype defines: on null the read throws, on an object
  it finds the own property, on every other value it is undefined.
\<close>

fun Get :: "jsval \<Rightarrow> string \<Rightarrow> js_error + jsval option" where
  "Get JNull P = Inl TypeError"
| "Get (JObject props) P = Inr (map_of props P)"
| "Get (JBoolean b) P = Inr None"
| "Get (JNumber n) P = Inr None"
| "Get (JString s) P = Inr None"
| "Get (JArray vs) P = Inr None"

text \<open>
  \<^verbatim>\<open>telemetryData.P = V\<close>: an existing own property keeps its place and takes the
  new value, a new one is created last. The file is not in strict mode, so the
  assignment to a primitive is dropped. An array would keep the property beside its
  elements, which \<open>JArray\<close> does not hold; the handler never assigns to one
  (lemma \<open>schema_valid_is_object\<close>).
\<close>

fun put :: "string \<Rightarrow> jsval \<Rightarrow> (string \<times> jsval) list \<Rightarrow> (string \<times> jsval) list" where
  "put P V [] = [(P, V)]"
| "put P V ((k, v) # props) = (if k = P then (k, V) # props else (k, v) # put P V props)"

fun Set_property :: "jsval \<Rightarrow> string \<Rightarrow> jsval \<Rightarrow> js_error + jsval" where
  "Set_property JNull P V = Inl TypeError"
| "Set_property (JObject props) P V = Inr (JObject (put P V props))"
| "Set_property (JBoolean b) P V = Inr (JBoolean b)"
| "Set_property (JNumber n) P V = Inr (JNumber n)"
| "Set_property (JString s) P V = Inr (JString s)"
| "Set_property (JArray vs) P V = Inr (JArray vs)"

text \<open>
  \<^verbatim>\<open>${v}\<close> in a template literal is ToString. On a primitive it never throws. On a
  plain object it calls the first callable of toString and valueOf that gives a
  primitive: an own property of a parsed object is never callable, and the inherited
  valueOf gives the object back, so the conversion throws a TypeError exactly when the
  object has an own property toString. On an array it joins the conversions of the
  elements. The recursion over nested arrays can also run out of stack; that is the
  host's \<open>toString_overflows\<close> below.
\<close>

fun ToString_throws :: "jsval \<Rightarrow> bool" where
  "ToString_throws JNull = False"
| "ToString_throws (JBoolean b) = False"
| "ToString_throws (JNumber n) = False"
| "ToString_throws (JString s) = False"
| "ToString_throws (JArray vs) = (\<exists>v\<in>set vs. ToString_throws v)"
| "ToString_throws (JObject props) = (''toString'' \<in> set (map fst props))"

section \<open>The host\<close>

text \<open>
  Three things are the JavaScript engine's and not the program's: how a finite double is
  printed (Number::toString, the shortest decimal that reads back), and on which values
  the recursion of \<^verbatim>\<open>JSON.stringify\<close> and of the string conversion run out of
  stack and throw a RangeError. \<^verbatim>\<open>JSON.parse\<close> accepts texts nested more deeply
  than \<^verbatim>\<open>JSON.stringify\<close> can print. The three are parameters of the model; every
  theorem holds for every host.
\<close>

record host =
  Number_toString :: "real \<Rightarrow> string"
  stringify_overflows :: "jsval \<Rightarrow> bool"
  toString_overflows :: "jsval \<Rightarrow> bool"

section \<open>JSON.stringify\<close>

text \<open>
  QuoteJSONString of ECMA-262 on a text of one-byte characters: the quote, the backslash
  and the five short control escapes, \<^verbatim>\<open>\u00xx\<close> for the other characters below
  0x20, every other character as it is.
\<close>

definition hex_digit :: "nat \<Rightarrow> char" where
  "hex_digit n = ''0123456789abcdef'' ! (n mod 16)"

definition escape_char :: "char \<Rightarrow> string" where
  "escape_char c =
     (if c = CHR 0x22 then [CHR 0x5C, CHR 0x22]
      else if c = CHR 0x5C then [CHR 0x5C, CHR 0x5C]
      else if c = CHR 0x08 then [CHR 0x5C, CHR ''b'']
      else if c = CHR 0x09 then [CHR 0x5C, CHR ''t'']
      else if c = CHR 0x0A then [CHR 0x5C, CHR ''n'']
      else if c = CHR 0x0C then [CHR 0x5C, CHR ''f'']
      else if c = CHR 0x0D then [CHR 0x5C, CHR ''r'']
      else if (of_char c :: nat) < 0x20
        then [CHR 0x5C, CHR ''u'', CHR ''0'', CHR ''0'',
              hex_digit (of_char c div 16), hex_digit (of_char c mod 16)]
      else [c])"

definition QuoteJSONString :: "string \<Rightarrow> string" where
  "QuoteJSONString s = [CHR 0x22] @ concat (map escape_char s) @ [CHR 0x22]"

fun join :: "string \<Rightarrow> string list \<Rightarrow> string" where
  "join sep [] = []"
| "join sep [x] = x"
| "join sep (x # y # ys) = x @ sep @ join sep (y # ys)"

text \<open>
  The text that \<^verbatim>\<open>JSON.stringify\<close> returns when it returns. \<open>ns\<close> prints a finite
  double; an infinity prints as null. No value here has a callable toJSON.
\<close>

fun JSON_text :: "(real \<Rightarrow> string) \<Rightarrow> jsval \<Rightarrow> string" where
  "JSON_text ns JNull = ''null''"
| "JSON_text ns (JBoolean b) = (if b then ''true'' else ''false'')"
| "JSON_text ns (JNumber (Finite r)) = ns r"
| "JSON_text ns (JNumber PosInfinity) = ''null''"
| "JSON_text ns (JNumber NegInfinity) = ''null''"
| "JSON_text ns (JString s) = QuoteJSONString s"
| "JSON_text ns (JArray vs) = ''['' @ join '','' (map (JSON_text ns) vs) @ '']''"
| "JSON_text ns (JObject props) =
     ''{'' @ join '','' (map (\<lambda>(k, v). QuoteJSONString k @ '':'' @ JSON_text ns v) props) @ ''}''"

text \<open>
  \<^verbatim>\<open>JSON.stringify(v)\<close> on a value that came from a request: it throws a RangeError
  when the host runs out of stack on \<open>v\<close>, and returns the text otherwise.
\<close>

definition JSON_stringify :: "host \<Rightarrow> jsval \<Rightarrow> js_error + string" where
  "JSON_stringify host v =
     (if stringify_overflows host v then Inl RangeError
      else Inr (JSON_text (Number_toString host) v))"

text \<open>
  A host for the worked examples. Number::toString on a non-negative integer below
  \<open>10\<^sup>2\<^sup>1\<close> is its decimal numeral. The stack is spent by nesting:
  \<open>engine limit\<close> overflows on the values nested more than \<open>limit\<close> deep.
  \<open>deep n\<close> is the array nested \<open>n\<close> deep around an empty array, the value of
  \<^verbatim>\<open>[[...[]...]]\<close>.
\<close>

fun decimal :: "nat \<Rightarrow> string" where
  "decimal n = (if n < 10 then [''0123456789'' ! n] else decimal (n div 10) @ [''0123456789'' ! (n mod 10)])"

definition integral_toString :: "real \<Rightarrow> string" where
  "integral_toString r = (if r < 0 then ''-'' else []) @ decimal (nat \<lfloor>\<bar>r\<bar>\<rfloor>)"

fun nesting :: "jsval \<Rightarrow> nat" where
  "nesting JNull = 0"
| "nesting (JBoolean b) = 0"
| "nesting (JNumber n) = 0"
| "nesting (JString s) = 0"
| "nesting (JArray vs) = Suc (fold max (map nesting vs) 0)"
| "nesting (JObject props) = Suc (fold max (map (\<lambda>(k, v). nesting v) props) 0)"

definition engine :: "nat \<Rightarrow> host" where
  "engine limit =
     \<lparr>Number_toString = integral_toString,
      stringify_overflows = (\<lambda>v. limit < nesting v),
      toString_overflows = (\<lambda>v. limit < nesting v)\<rparr>"

fun deep :: "nat \<Rightarrow> jsval" where
  "deep 0 = JArray []"
| "deep (Suc n) = JArray [deep n]"

section \<open>The WebSocket server's clients\<close>

text \<open>
  \<^verbatim>\<open>wss.clients\<close> is the ws library's Set of WebSocket objects, iterated in insertion
  order. A socket is its identity (\<open>handle\<close>), its \<^verbatim>\<open>readyState\<close> and the texts
  handed to the transport for it so far, oldest first.
\<close>

datatype ready_state = CONNECTING | OPEN | CLOSING | CLOSED

record websocket =
  handle :: nat
  readyState :: ready_state
  sent :: "string list"

text \<open>
  \<^verbatim>\<open>ws.send(data)\<close> of the ws library: it throws while the socket is connecting,
  hands the text to the socket when it is open, and drops the text otherwise (the
  failure goes to the callback, which the server never passes). A later write error of
  an open socket arrives as an error event (line 127), not at the call.
\<close>

definition ws_send :: "string \<Rightarrow> websocket \<Rightarrow> js_error + websocket" where
  "ws_send data ws =
     (case readyState ws of
        CONNECTING \<Rightarrow> Inl NotOpenError
      | OPEN \<Rightarrow> Inr (ws\<lparr>sent := sent ws @ [data]\<rparr>)
      | CLOSING \<Rightarrow> Inr ws
      | CLOSED \<Rightarrow> Inr ws)"

text \<open>
  The process: the registry \<open>clients\<close>, the next fresh socket identity, and two
  records of what \<^verbatim>\<open>broadcast\<close> did so far: the values it was called with, oldest
  first, and the number of calls of \<^verbatim>\<open>JSON.stringify\<close> it made.
\<close>

record process =
  clients :: "websocket list"
  next_handle :: nat
  broadcast_calls :: "jsval list"
  serializations :: nat

definition initial :: process where
  "initial = \<lparr>clients = [], next_handle = 0, broadcast_calls = [], serializations = 0\<rparr>"

section \<open>broadcast (lines 136 to 147)\<close>

text \<open>
  The callback of \<^verbatim>\<open>wss.clients.forEach\<close> over the clients in order. It is given
  the text and nothing else. An exception of the callback leaves the loop: the clients
  before it keep what they were sent, the others are not visited.
\<close>

fun forEach_client :: "string \<Rightarrow> websocket list \<Rightarrow> js_error option \<times> websocket list" where
  "forEach_client message [] = (None, [])"
| "forEach_client message (client # rest) =
     (if readyState client = OPEN then
        (case ws_send message client of
           Inl e \<Rightarrow> (Some e, client # rest)
         | Inr client' \<Rightarrow>
             (case forEach_client message rest of (e, rest') \<Rightarrow> (e, client' # rest')))
      else (case forEach_client message rest of (e, rest') \<Rightarrow> (e, client # rest')))"

text \<open>
  Line 137: the object literal around the data, and the one call of
  \<^verbatim>\<open>JSON.stringify\<close> on it, counted in the process whether it returns or throws.
\<close>

definition telemetry_value :: "jsval \<Rightarrow> jsval" where
  "telemetry_value data = JObject [(''type'', JString ''TELEMETRY''), (''payload'', data)]"

definition stringify_counted :: "host \<Rightarrow> jsval \<Rightarrow> process \<Rightarrow> (js_error + string) \<times> process" where
  "stringify_counted host v p = (JSON_stringify host v, p\<lparr>serializations := Suc (serializations p)\<rparr>)"

definition telemetry_message :: "host \<Rightarrow> jsval \<Rightarrow> string" where
  "telemetry_message host data = JSON_text (Number_toString host) (telemetry_value data)"

definition broadcast :: "host \<Rightarrow> jsval \<Rightarrow> process \<Rightarrow> js_error option \<times> process" where
  "broadcast host data p =
     (case stringify_counted host (telemetry_value data) (p\<lparr>broadcast_calls := broadcast_calls p @ [data]\<rparr>) of
        (Inl e, p') \<Rightarrow> (Some e, p')
      | (Inr message, p') \<Rightarrow>
          (case forEach_client message (clients p') of
             (e, cs) \<Rightarrow> (e, p'\<lparr>clients := cs\<rparr>)))"

section \<open>The HTTP response\<close>

record http_response =
  headersSent :: bool
  statusCode :: nat
  finished :: bool
  body :: string

definition new_response :: http_response where
  "new_response = \<lparr>headersSent = False, statusCode = 200, finished = False, body = []\<rparr>"

definition writeHead :: "nat \<Rightarrow> http_response \<Rightarrow> js_error + http_response" where
  "writeHead code res =
     (if headersSent res then Inl ERR_HTTP_HEADERS_SENT
      else Inr (res\<lparr>headersSent := True, statusCode := code\<rparr>))"

definition res_end :: "string \<Rightarrow> http_response \<Rightarrow> http_response" where
  "res_end data res =
     (if finished res then res
      else res\<lparr>headersSent := True, finished := True, body := body res @ data\<rparr>)"

section \<open>The telemetry ingest handler (lines 73 to 102)\<close>

text \<open>
  The objects of one callback live in a store, a list indexed by address; a variable
  holds an address. \<^verbatim>\<open>JSON.parse\<close> makes one object, the first of the callback's
  store, and \<^verbatim>\<open>telemetryData\<close> is its address. Nothing keeps the address when the
  callback is over.
\<close>

type_synonym ref = nat

definition JSON_parse_result :: "jsval \<Rightarrow> ref \<times> jsval list" where
  "JSON_parse_result v = (0, [v])"

text \<open>
  Line 78, \<^verbatim>\<open>!telemetryData.agentId || !telemetryData.status\<close>, on the object that
  \<^verbatim>\<open>telemetryData\<close> points to: whether the request is rejected. The second read
  happens only when the first value is truthy.
\<close>

definition schema_invalid :: "jsval \<Rightarrow> js_error + bool" where
  "schema_invalid telemetryData =
     (case Get telemetryData ''agentId'' of
        Inl e \<Rightarrow> Inl e
      | Inr agentId \<Rightarrow>
          if \<not> ToBoolean agentId then Inr True
          else (case Get telemetryData ''status'' of
                  Inl e \<Rightarrow> Inl e
                | Inr status \<Rightarrow> Inr (\<not> ToBoolean status)))"

text \<open>
  Lines 85 to 87: the read of the timestamp through the address, and the assignment,
  which writes the object at that address in the store. No object is made.
\<close>

definition fill_timestamp :: "string \<Rightarrow> ref \<Rightarrow> jsval list \<Rightarrow> js_error + jsval list" where
  "fill_timestamp now telemetryData store =
     (case Get (store ! telemetryData) ''timestamp'' of
        Inl e \<Rightarrow> Inl e
      | Inr timestamp \<Rightarrow>
          if \<not> ToBoolean timestamp then
            (case Set_property (store ! telemetryData) ''timestamp'' (JString now) of
               Inl e \<Rightarrow> Inl e
             | Inr written \<Rightarrow> Inr (store[telemetryData := written]))
          else Inr store)"

text \<open>
  Lines 84 to 90, the specification's normalizer: the address that line 90 gives to
  \<^verbatim>\<open>broadcast\<close>, which is the variable \<^verbatim>\<open>telemetryData\<close> again, and the store
  at that point.
\<close>

definition normalize :: "string \<Rightarrow> ref \<Rightarrow> jsval list \<Rightarrow> js_error + (ref \<times> jsval list)" where
  "normalize now telemetryData store =
     (case fill_timestamp now telemetryData store of
        Inl e \<Rightarrow> Inl e
      | Inr store' \<Rightarrow> Inr (telemetryData, store'))"

text \<open>
  The three answers. Each is \<^verbatim>\<open>JSON.stringify\<close> of a flat object literal of the
  program's own, which needs no more stack than the call.
\<close>

definition schema_error_body :: "host \<Rightarrow> string" where
  "schema_error_body host =
     JSON_text (Number_toString host)
       (JObject [(''error'', JString ''Invalid schema: agentId and status are required.'')])"

definition json_error_body :: "host \<Rightarrow> string" where
  "json_error_body host = JSON_text (Number_toString host) (JObject [(''error'', JString ''Invalid JSON'')])"

definition ok_body :: "host \<Rightarrow> nat \<Rightarrow> string" where
  "ok_body host count =
     JSON_text (Number_toString host)
       (JObject [(''status'', JString ''ok''), (''broadcast_count'', JNumber (Finite (real count)))])"

text \<open>
  Line 95: the template literal converts \<^verbatim>\<open>telemetryData.agentId\<close> to a string.
  What is printed is not modelled, the exceptions of the conversion are.
\<close>

definition console_log_received :: "host \<Rightarrow> jsval \<Rightarrow> js_error option" where
  "console_log_received host telemetryData =
     (case Get telemetryData ''agentId'' of
        Inl e \<Rightarrow> Some e
      | Inr None \<Rightarrow> None
      | Inr (Some agentId) \<Rightarrow>
          if toString_overflows host agentId then Some RangeError
          else if ToString_throws agentId then Some TypeError
          else None)"

text \<open>
  The body of the \<^verbatim>\<open>try\<close>. \<open>parsed\<close> is the outcome of
  \<^verbatim>\<open>JSON.parse(body)\<close> (the host's parser: the thrown SyntaxError, or the value),
  \<open>now\<close> is \<^verbatim>\<open>new Date().toISOString()\<close>. The result is the exception that
  left the block, if any, with the response and the process as they are at that point.
\<close>

definition telemetry_try ::
  "host \<Rightarrow> string \<Rightarrow> js_error + jsval \<Rightarrow> http_response \<Rightarrow> process
     \<Rightarrow> js_error option \<times> http_response \<times> process" where
  "telemetry_try host now parsed res p =
     (case parsed of
        Inl e \<Rightarrow> (Some e, res, p)
      | Inr v \<Rightarrow>
          (case JSON_parse_result v of
             (telemetryData, store) \<Rightarrow>
               (case schema_invalid (store ! telemetryData) of
                  Inl e \<Rightarrow> (Some e, res, p)
                | Inr True \<Rightarrow>
                    (case writeHead 400 res of
                       Inl e \<Rightarrow> (Some e, res, p)
                     | Inr res' \<Rightarrow> (None, res_end (schema_error_body host) res', p))
                | Inr False \<Rightarrow>
                    (case normalize now telemetryData store of
                       Inl e \<Rightarrow> (Some e, res, p)
                     | Inr (envelope, store') \<Rightarrow>
                         (case broadcast host (store' ! envelope) p of
                            (Some e, p') \<Rightarrow> (Some e, res, p')
                          | (None, p') \<Rightarrow>
                              (case writeHead 200 res of
                                 Inl e \<Rightarrow> (Some e, res, p')
                               | Inr res' \<Rightarrow>
                                   (console_log_received host (store' ! telemetryData),
                                    res_end (ok_body host (length (clients p'))) res', p')))))))"

text \<open>
  The whole callback of the request's end event: the \<^verbatim>\<open>try\<close> and its
  \<^verbatim>\<open>catch\<close> (its \<^verbatim>\<open>console.error\<close> prints an Error and throws nothing). An
  exception in the first component is one that nothing caught: it ends the process.
\<close>

definition on_end ::
  "host \<Rightarrow> string \<Rightarrow> js_error + jsval \<Rightarrow> process
     \<Rightarrow> js_error option \<times> http_response \<times> process" where
  "on_end host now parsed p =
     (case telemetry_try host now parsed new_response p of
        (None, res, p') \<Rightarrow> (None, res, p')
      | (Some e, res, p') \<Rightarrow>
          (case writeHead 400 res of
             Inl e' \<Rightarrow> (Some e', res, p')
           | Inr res' \<Rightarrow> (None, res_end (json_error_body host) res', p')))"

section \<open>The connection handler (lines 113 to 130)\<close>

text \<open>The greeting is a flat object literal of three strings.\<close>

definition system_message :: "host \<Rightarrow> string \<Rightarrow> string" where
  "system_message host now =
     JSON_text (Number_toString host)
       (JObject [(''type'', JString ''SYSTEM''),
                 (''message'', JString ''Connected to Mission Control Backend''),
                 (''timestamp'', JString now)])"

definition on_connection :: "host \<Rightarrow> string \<Rightarrow> websocket \<Rightarrow> js_error + websocket" where
  "on_connection host now ws = ws_send (system_message host now) ws"

section \<open>Runs of the server\<close>

text \<open>
  The process is single-threaded: each callback runs to its end before the next event.
  The events are a new connection (the library adds the open socket to
  \<^verbatim>\<open>wss.clients\<close> and calls the handler at once), the end of a POST /telemetry
  request, a change of a socket's state by the transport, and the close of a socket
  (the library deletes it from \<^verbatim>\<open>wss.clients\<close>; the handlers of lines 123 and 127
  only log). An exception that no callback catches ends the run.
\<close>

datatype event =
    Connection string
  | TelemetryEnd "js_error + jsval" string
  | StateChange nat ready_state
  | Close nat

definition set_state :: "nat \<Rightarrow> ready_state \<Rightarrow> websocket \<Rightarrow> websocket" where
  "set_state h s ws = (if handle ws = h then ws\<lparr>readyState := s\<rparr> else ws)"

fun step :: "host \<Rightarrow> event \<Rightarrow> process \<Rightarrow> js_error + process" where
  "step host (Connection now) p =
     (case on_connection host now \<lparr>handle = next_handle p, readyState = OPEN, sent = []\<rparr> of
        Inl e \<Rightarrow> Inl e
      | Inr ws \<Rightarrow> Inr (p\<lparr>clients := clients p @ [ws], next_handle := Suc (next_handle p)\<rparr>))"
| "step host (TelemetryEnd parsed now) p =
     (case on_end host now parsed p of
        (Some e, res, p') \<Rightarrow> Inl e
      | (None, res, p') \<Rightarrow> Inr p')"
| "step host (StateChange h s) p = Inr (p\<lparr>clients := map (set_state h s) (clients p)\<rparr>)"
| "step host (Close h) p = Inr (p\<lparr>clients := filter (\<lambda>ws. handle ws \<noteq> h) (clients p)\<rparr>)"

fun run :: "host \<Rightarrow> event list \<Rightarrow> process \<Rightarrow> js_error + process" where
  "run host [] p = Inr p"
| "run host (ev # evs) p = (case step host ev p of Inl e \<Rightarrow> Inl e | Inr p' \<Rightarrow> run host evs p')"

section \<open>Notions of the specification\<close>

text \<open>
  The specification's deliveredCount: the number of registered observers for which the
  call handed a text to the transport, read off the registry before and after.
\<close>

definition deliveredCount :: "websocket list \<Rightarrow> websocket list \<Rightarrow> nat" where
  "deliveredCount before after = length (filter (\<lambda>(c, c'). sent c' \<noteq> sent c) (zip before after))"



text \<open>An ingest that passes line 78: the only event that reaches \<^verbatim>\<open>broadcast\<close>.\<close>

definition accepted :: "event \<Rightarrow> bool" where
  "accepted ev =
     (case ev of
        Connection now \<Rightarrow> False
      | TelemetryEnd parsed now \<Rightarrow>
          (case parsed of Inl e \<Rightarrow> False | Inr telemetryData \<Rightarrow> schema_invalid telemetryData = Inr False)
      | StateChange h s \<Rightarrow> False
      | Close h \<Rightarrow> False)"


text \<open>
  The type tag of a text on the push channel. \<^verbatim>\<open>JSON.stringify\<close> prints the
  properties in creation order, and both object literals (lines 117 and 137) start with
  \<^verbatim>\<open>type\<close>.
\<close>

definition starts_with :: "string \<Rightarrow> string \<Rightarrow> bool" where
  "starts_with pre s = (take (length pre) s = pre)"

definition is_SYSTEM :: "string \<Rightarrow> bool" where
  \<open>is_SYSTEM m = starts_with ''{"type":"SYSTEM"'' m\<close>

definition is_TELEMETRY :: "string \<Rightarrow> bool" where
  \<open>is_TELEMETRY m = starts_with ''{"type":"TELEMETRY"'' m\<close>

text \<open>
  A client has been greeted: the first text handed over for it is the greeting of the
  connection handler, and every later one is a telemetry message.
\<close>

abbreviation greeted :: "host \<Rightarrow> websocket \<Rightarrow> bool" where
  "greeted host ws \<equiv> \<exists>t ms. sent ws = system_message host t # ms \<and> list_all is_TELEMETRY ms"

section \<open>Basic facts\<close>

lemma json_error_body_text: \<open>json_error_body host = ''{"error":"Invalid JSON"}''\<close>
  by (simp add: json_error_body_def QuoteJSONString_def escape_char_def)

lemma schema_error_body_text:
  \<open>schema_error_body host = ''{"error":"Invalid schema: agentId and status are required."}''\<close>
  by (simp add: schema_error_body_def QuoteJSONString_def escape_char_def)

lemma ok_body_text:
  \<open>ok_body host n = ''{"status":"ok","broadcast_count":'' @ Number_toString host (real n) @ ''}''\<close>
  by (simp add: ok_body_def QuoteJSONString_def escape_char_def)

lemma nesting_deep: "nesting (deep n) = Suc n"
  by (induction n) simp_all

text \<open>The loop visits every client, never throws, and changes open clients only.\<close>

lemma forEach_client_all:
  "forEach_client message cs =
     (None, map (\<lambda>c. if readyState c = OPEN then c\<lparr>sent := sent c @ [message]\<rparr> else c) cs)"
  by (induction cs) (simp_all add: ws_send_def)

text \<open>The two ways through \<^verbatim>\<open>broadcast\<close>: line 137 throws, or it returns the text.\<close>

lemma broadcast_overflow:
  "stringify_overflows host (telemetry_value data) \<Longrightarrow>
   broadcast host data p =
     (Some RangeError,
      p\<lparr>broadcast_calls := broadcast_calls p @ [data], serializations := Suc (serializations p)\<rparr>)"
  by (simp add: broadcast_def stringify_counted_def JSON_stringify_def)

lemma broadcast_sent:
  "\<not> stringify_overflows host (telemetry_value data) \<Longrightarrow>
   broadcast host data p =
     (None,
      p\<lparr>clients := map (\<lambda>c. if readyState c = OPEN
                              then c\<lparr>sent := sent c @ [telemetry_message host data]\<rparr> else c) (clients p),
        broadcast_calls := broadcast_calls p @ [data], serializations := Suc (serializations p)\<rparr>)"
  by (simp add: broadcast_def stringify_counted_def JSON_stringify_def forEach_client_all telemetry_message_def)

lemma broadcast_calls_broadcast:
  "broadcast_calls (snd (broadcast host data p)) = broadcast_calls p @ [data]"
  by (cases "stringify_overflows host (telemetry_value data)") (simp_all add: broadcast_overflow broadcast_sent)

lemma next_handle_broadcast: "next_handle (snd (broadcast host data p)) = next_handle p"
  by (cases "stringify_overflows host (telemetry_value data)") (simp_all add: broadcast_overflow broadcast_sent)

lemma clients_broadcast:
  "clients (snd (broadcast host data p)) =
     (if stringify_overflows host (telemetry_value data) then clients p
      else map (\<lambda>c. if readyState c = OPEN
                     then c\<lparr>sent := sent c @ [telemetry_message host data]\<rparr> else c) (clients p))"
  by (simp add: broadcast_overflow broadcast_sent)

text \<open>Only an object passes line 78.\<close>

lemma schema_valid_is_object:
  "schema_invalid v = Inr False \<Longrightarrow> \<exists>props. v = JObject props"
  by (cases v) (simp_all add: schema_invalid_def)

lemma map_of_put: "map_of (put P V props) k = (if k = P then Some V else map_of props k)"
  by (induction props) auto

text \<open>Lines 84 to 90 on the object that \<^verbatim>\<open>JSON.parse\<close> returned.\<close>

lemma normalize_object:
  "normalize now 0 [JObject props] =
     Inr (0, [if ToBoolean (map_of props ''timestamp'') then JObject props
              else JObject (put ''timestamp'' (JString now) props)])"
  by (simp add: normalize_def fill_timestamp_def)

lemma normalize_first:
  assumes "normalize now 0 [v] = Inr (r, store)"
  shows "r = 0"
  using assms by (auto simp: normalize_def split: sum.splits)

text \<open>The ways through the handler.\<close>

lemma on_end_unparseable:
  \<open>on_end host now (Inl e) p =
     (None, \<lparr>headersSent = True, statusCode = 400, finished = True, body = ''{"error":"Invalid JSON"}''\<rparr>, p)\<close>
  by (simp add: on_end_def telemetry_try_def writeHead_def res_end_def new_response_def json_error_body_text)

lemma on_end_throws:
  \<open>schema_invalid v = Inl e \<Longrightarrow> on_end host now (Inr v) p =
     (None, \<lparr>headersSent = True, statusCode = 400, finished = True, body = ''{"error":"Invalid JSON"}''\<rparr>, p)\<close>
  by (simp add: on_end_def telemetry_try_def JSON_parse_result_def writeHead_def res_end_def new_response_def
      json_error_body_text)

lemma on_end_rejected:
  \<open>schema_invalid v = Inr True \<Longrightarrow> on_end host now (Inr v) p =
     (None, \<lparr>headersSent = True, statusCode = 400, finished = True,
             body = ''{"error":"Invalid schema: agentId and status are required."}''\<rparr>, p)\<close>
  by (simp add: on_end_def telemetry_try_def JSON_parse_result_def writeHead_def res_end_def new_response_def
      schema_error_body_text)

text \<open>
  An accepted submission is given to \<^verbatim>\<open>broadcast\<close>. When line 137 throws, nothing
  has been written to the response yet and the \<^verbatim>\<open>catch\<close> answers 400.
\<close>

lemma on_end_accepted_overflow:
  assumes "schema_invalid v = Inr False" and "normalize now 0 [v] = Inr (r, store)"
    and "stringify_overflows host (telemetry_value (store ! r))"
  shows \<open>on_end host now (Inr v) p =
     (None, \<lparr>headersSent = True, statusCode = 400, finished = True, body = ''{"error":"Invalid JSON"}''\<rparr>,
      snd (broadcast host (store ! r) p))\<close>
  using assms
  by (simp add: on_end_def telemetry_try_def JSON_parse_result_def broadcast_overflow writeHead_def res_end_def
      new_response_def json_error_body_text)

text \<open>
  When line 137 returns, the submission is broadcast and answered 200. When the log
  line of line 95 then throws, the \<^verbatim>\<open>catch\<close> calls \<^verbatim>\<open>writeHead\<close> on the
  response that is already sent, and that exception leaves the callback.
\<close>

lemma on_end_accepted_sent:
  assumes "schema_invalid v = Inr False" and "normalize now 0 [v] = Inr (r, store)"
    and "\<not> stringify_overflows host (telemetry_value (store ! r))"
  shows \<open>on_end host now (Inr v) p =
     (if console_log_received host (store ! r) = None then None else Some ERR_HTTP_HEADERS_SENT,
      \<lparr>headersSent = True, statusCode = 200, finished = True, body = ok_body host (length (clients p))\<rparr>,
      snd (broadcast host (store ! r) p))\<close>
proof -
  have r: "r = 0" using assms(2) by (rule normalize_first)
  show ?thesis
    using assms
    by (cases "console_log_received host (store ! 0)")
       (simp_all add: r on_end_def telemetry_try_def JSON_parse_result_def broadcast_sent writeHead_def
          res_end_def new_response_def)
qed

text \<open>
  An instance of the last case: the agentId is an object with an own property
  toString. The submission is answered 200 and broadcast, then the exception of the
  second \<^verbatim>\<open>writeHead\<close> leaves the callback.
\<close>

lemma on_end_unprintable_agentId:
  \<open>on_end (engine 1000) ''2026-11-03T10:00:00.000Z''
      (Inr (JObject [(''agentId'', JObject [(''toString'', JNumber (Finite 1))]),
                     (''status'', JString ''working''),
                     (''timestamp'', JString ''2026-11-03T09:00:00.000Z'')])) initial =
     (Some ERR_HTTP_HEADERS_SENT,
      \<lparr>headersSent = True, statusCode = 200, finished = True, body = ''{"status":"ok","broadcast_count":0}''\<rparr>,
      \<lparr>clients = [], next_handle = 0,
       broadcast_calls = [JObject [(''agentId'', JObject [(''toString'', JNumber (Finite 1))]),
                                   (''status'', JString ''working''),
                                   (''timestamp'', JString ''2026-11-03T09:00:00.000Z'')]],
       serializations = 1\<rparr>)\<close>
  by (simp add: on_end_def telemetry_try_def JSON_parse_result_def schema_invalid_def normalize_def
      fill_timestamp_def broadcast_def stringify_counted_def JSON_stringify_def telemetry_value_def
      engine_def console_log_received_def writeHead_def res_end_def new_response_def initial_def
      ok_body_text integral_toString_def)

text \<open>
  An instance of the first case: the metrics are nested too deeply to print. Line 137
  throws, the \<^verbatim>\<open>catch\<close> answers 400 with the parse error's body, and the open
  client is sent nothing.
\<close>

lemma on_end_deep_envelope:
  \<open>on_end (engine 1000) ''2026-11-03T10:00:00.000Z''
      (Inr (JObject [(''agentId'', JString ''Agent-01''), (''status'', JString ''working''),
                     (''timestamp'', JString ''2026-11-03T09:00:00.000Z''), (''metrics'', deep 100000)]))
      \<lparr>clients = [\<lparr>handle = 0, readyState = OPEN, sent = []\<rparr>], next_handle = 1,
       broadcast_calls = [], serializations = 0\<rparr> =
     (None,
      \<lparr>headersSent = True, statusCode = 400, finished = True, body = ''{"error":"Invalid JSON"}''\<rparr>,
      \<lparr>clients = [\<lparr>handle = 0, readyState = OPEN, sent = []\<rparr>], next_handle = 1,
       broadcast_calls = [JObject [(''agentId'', JString ''Agent-01''), (''status'', JString ''working''),
                     (''timestamp'', JString ''2026-11-03T09:00:00.000Z''), (''metrics'', deep 100000)]],
       serializations = 1\<rparr>)\<close>
  by (simp add: on_end_def telemetry_try_def JSON_parse_result_def schema_invalid_def normalize_def
      fill_timestamp_def broadcast_def stringify_counted_def JSON_stringify_def telemetry_value_def
      engine_def nesting_deep writeHead_def res_end_def new_response_def json_error_body_text)

lemma schema_invalid_object:
  "schema_invalid (JObject props) =
     Inr (\<not> ToBoolean (map_of props ''agentId'') \<or> \<not> ToBoolean (map_of props ''status''))"
  by (simp add: schema_invalid_def)

text \<open>What the handler can do to the process.\<close>

lemma on_end_cases:
  obtains res where "on_end host now parsed p = (None, res, p)" and "\<not> accepted (TelemetryEnd parsed now)"
  | x res v r store where "parsed = Inr v" and "schema_invalid v = Inr False"
      and "normalize now 0 [v] = Inr (r, store)"
      and "on_end host now parsed p = (x, res, snd (broadcast host (store ! r) p))"
proof (cases parsed)
  case (Inl err)
  then show ?thesis using that(1) by (simp add: on_end_unparseable accepted_def)
next
  case (Inr v)
  show ?thesis
  proof (cases "schema_invalid v")
    case (Inl err)
    then show ?thesis using that(1) Inr by (simp add: on_end_throws accepted_def)
  next
    case r: (Inr b)
    show ?thesis
    proof (cases b)
      case True
      then show ?thesis using that(1) Inr r by (simp add: on_end_rejected accepted_def)
    next
      case False
      with r have s: "schema_invalid v = Inr False" by simp
      then obtain props where "v = JObject props" using schema_valid_is_object by blast
      then obtain a store where f: "normalize now 0 [v] = Inr (a, store)" by (simp add: normalize_object)
      show ?thesis
      proof (cases "stringify_overflows host (telemetry_value (store ! a))")
        case True
        show ?thesis
          by (rule that(2) [OF Inr s f]) (simp add: Inr on_end_accepted_overflow [OF s f True])
      next
        case False
        show ?thesis
          by (rule that(2) [OF Inr s f]) (simp add: Inr on_end_accepted_sent [OF s f False])
      qed
    qed
  qed
qed

text \<open>A run that does not end in an uncaught exception goes through every step.\<close>

lemma run_Cons:
  assumes "run host (ev # evs) p = Inr p'"
  obtains p1 where "step host ev p = Inr p1" and "run host evs p1 = Inr p'"
  using assms by (cases "step host ev p") auto

lemma run_append:
  "run host (xs @ ys) p = (case run host xs p of Inl e \<Rightarrow> Inl e | Inr p' \<Rightarrow> run host ys p')"
  by (induction xs arbitrary: p) (auto split: sum.splits)






lemma schema_invalid_not_null:
  "v \<noteq> JNull \<Longrightarrow> \<exists>agentId status. Get v ''agentId'' = Inr agentId \<and> Get v ''status'' = Inr status
      \<and> schema_invalid v = Inr (\<not> ToBoolean agentId \<or> \<not> ToBoolean status)"
  by (cases v) (simp_all add: schema_invalid_def)

text \<open>
  Every value but null whose agentId or status is missing or the empty string is
  answered with the schema error, and the process is as before.
\<close>

lemma missing_or_empty_rejected:
  assumes "v \<noteq> JNull"
    and "Get v ''agentId'' = Inr None \<or> Get v ''agentId'' = Inr (Some (JString []))
       \<or> Get v ''status'' = Inr None \<or> Get v ''status'' = Inr (Some (JString []))"
  shows \<open>on_end host now (Inr v) p =
     (None, \<lparr>headersSent = True, statusCode = 400, finished = True,
             body = ''{"error":"Invalid schema: agentId and status are required."}''\<rparr>, p)\<close>
proof -
  from assms(1) obtain agentId status where g: "Get v ''agentId'' = Inr agentId" "Get v ''status'' = Inr status"
    and s: "schema_invalid v = Inr (\<not> ToBoolean agentId \<or> \<not> ToBoolean status)"
    using schema_invalid_not_null by blast
  from assms(2) g have "\<not> ToBoolean agentId \<or> \<not> ToBoolean status" by auto
  with s have "schema_invalid v = Inr True" by simp
  then show ?thesis by (rule on_end_rejected)
qed

lemma deliveredCount_open:
  "deliveredCount cs (map (\<lambda>c. if readyState c = OPEN then c\<lparr>sent := sent c @ [m]\<rparr> else c) cs) =
     length (filter (\<lambda>c. readyState c = OPEN) cs)"
  by (induction cs) (simp_all add: deliveredCount_def)

lemma deliveredCount_same: "deliveredCount cs cs = 0"
  by (induction cs) (simp_all add: deliveredCount_def)

text \<open>The type tags of the two kinds of message.\<close>

lemma is_SYSTEM_system_message: "is_SYSTEM (system_message host now)"
  by (simp add: is_SYSTEM_def starts_with_def system_message_def QuoteJSONString_def escape_char_def)

lemma is_TELEMETRY_telemetry_message: "is_TELEMETRY (telemetry_message host data)"
  by (simp add: is_TELEMETRY_def starts_with_def telemetry_message_def telemetry_value_def
      QuoteJSONString_def escape_char_def)

lemma starts_with_take:
  assumes "starts_with pre s" and "n \<le> length pre"
  shows "take n s = take n pre"
proof -
  have "take n s = take n (take (length pre) s)"
    using assms(2) by (simp add: min_def)
  with assms(1) show ?thesis by (simp add: starts_with_def)
qed

lemma is_TELEMETRY_not_SYSTEM:
  assumes "is_TELEMETRY m"
  shows "\<not> is_SYSTEM m"
proof
  assume "is_SYSTEM m"
  then have \<open>take 10 m = take 10 ''{"type":"SYSTEM"''\<close>
    unfolding is_SYSTEM_def by (rule starts_with_take) simp
  moreover from assms have \<open>take 10 m = take 10 ''{"type":"TELEMETRY"''\<close>
    unfolding is_TELEMETRY_def by (rule starts_with_take) simp
  ultimately show False by simp
qed

text \<open>What one event does to the texts handed over for a client, and the run invariants.\<close>

lemma step_next_handle:
  assumes "step host ev p = Inr p'"
  shows "next_handle p \<le> next_handle p'"
proof (cases ev)
  case (Connection now)
  with assms show ?thesis by (auto simp: on_connection_def ws_send_def)
next
  case (TelemetryEnd parsed now)
  show ?thesis
  proof (rule on_end_cases [of host now parsed p])
    fix res assume "on_end host now parsed p = (None, res, p)"
    with assms TelemetryEnd show ?thesis by simp
  next
    fix x res v r store
    assume "on_end host now parsed p = (x, res, snd (broadcast host (store ! r) p))"
    with assms TelemetryEnd have "p' = snd (broadcast host (store ! r) p)"
      by (cases x) simp_all
    then show ?thesis by (simp add: next_handle_broadcast)
  qed
next
  case (StateChange h s)
  with assms show ?thesis by auto
next
  case (Close h)
  with assms show ?thesis by auto
qed

lemma step_sent:
  assumes "step host ev p = Inr p'" and "ws' \<in> set (clients p')"
  shows "(\<exists>ws\<in>set (clients p). handle ws' = handle ws
            \<and> (sent ws' = sent ws \<or> (accepted ev \<and> (\<exists>data. sent ws' = sent ws @ [telemetry_message host data]))))
       \<or> (\<exists>now. ev = Connection now \<and> handle ws' = next_handle p \<and> next_handle p' = Suc (next_handle p)
            \<and> sent ws' = [system_message host now])"
proof (cases ev)
  case (Connection now)
  with assms show ?thesis by (auto simp: on_connection_def ws_send_def)
next
  case (TelemetryEnd parsed now)
  show ?thesis
  proof (rule on_end_cases [of host now parsed p])
    fix res assume "on_end host now parsed p = (None, res, p)"
    with assms TelemetryEnd show ?thesis by auto
  next
    fix x res v r store
    assume a: "parsed = Inr v" "schema_invalid v = Inr False"
      and "on_end host now parsed p = (x, res, snd (broadcast host (store ! r) p))"
    with assms(1) TelemetryEnd have p': "p' = snd (broadcast host (store ! r) p)"
      by (cases x) simp_all
    have acc: "accepted ev" using a TelemetryEnd by (simp add: accepted_def)
    show ?thesis
    proof (cases "stringify_overflows host (telemetry_value (store ! r))")
      case True
      with p' have "clients p' = clients p" by (simp add: clients_broadcast)
      with assms(2) have "ws' \<in> set (clients p)" by simp
      then show ?thesis by blast
    next
      case False
      with p' have "clients p' =
          map (\<lambda>c. if readyState c = OPEN then c\<lparr>sent := sent c @ [telemetry_message host (store ! r)]\<rparr> else c)
            (clients p)"
        by (simp add: clients_broadcast)
      with assms(2) have
        "ws' \<in> set (map (\<lambda>c. if readyState c = OPEN
                               then c\<lparr>sent := sent c @ [telemetry_message host (store ! r)]\<rparr> else c) (clients p))"
        by (simp only:)
      then obtain ws where w: "ws \<in> set (clients p)"
        and w': "ws' = (if readyState ws = OPEN then ws\<lparr>sent := sent ws @ [telemetry_message host (store ! r)]\<rparr> else ws)"
        by auto
      with acc show ?thesis by (auto split: if_splits)
    qed
  qed
next
  case (StateChange h s)
  with assms obtain ws where "ws \<in> set (clients p)" "ws' = set_state h s ws"
    by auto
  then have "ws \<in> set (clients p)" "handle ws' = handle ws" "sent ws' = sent ws"
    by (simp_all add: set_state_def)
  then show ?thesis by blast
next
  case (Close h)
  with assms have "ws' \<in> set (clients p)" by auto
  then show ?thesis by blast
qed

lemma step_greeted:
  assumes "step host ev p = Inr p'" and "\<forall>ws\<in>set (clients p). greeted host ws" and "ws' \<in> set (clients p')"
  shows "greeted host ws'"
proof -
  from step_sent [OF assms(1,3)] consider
    (same) ws where "ws \<in> set (clients p)" "sent ws' = sent ws"
  | (more) ws data where "ws \<in> set (clients p)" "sent ws' = sent ws @ [telemetry_message host data]"
  | (new) now where "sent ws' = [system_message host now]"
    by blast
  then show ?thesis
  proof cases
    case same
    with assms(2) show ?thesis by auto
  next
    case more
    from assms(2) more(1) obtain t ms where "sent ws = system_message host t # ms" "list_all is_TELEMETRY ms"
      by blast
    with more(2) have "sent ws' = system_message host t # (ms @ [telemetry_message host data])"
      and "list_all is_TELEMETRY (ms @ [telemetry_message host data])"
      by (simp_all add: is_TELEMETRY_telemetry_message)
    then show ?thesis by blast
  next
    case new
    then have "sent ws' = system_message host now # []" "list_all is_TELEMETRY []" by simp_all
    then show ?thesis by blast
  qed
qed

lemma step_fresh:
  assumes "step host ev p = Inr p'" and "\<forall>ws\<in>set (clients p). handle ws < next_handle p"
    and "ws' \<in> set (clients p')"
  shows "handle ws' < next_handle p'"
  using step_sent [OF assms(1,3)] step_next_handle [OF assms(1)] assms(2) by auto

lemma run_invariant:
  assumes "run host evs p = Inr p'"
    and "\<forall>ws\<in>set (clients p). greeted host ws \<and> handle ws < next_handle p"
  shows "\<forall>ws\<in>set (clients p'). greeted host ws \<and> handle ws < next_handle p'"
  using assms
proof (induction evs arbitrary: p)
  case Nil
  then show ?case by simp
next
  case (Cons ev evs)
  from Cons.prems(1) obtain p1 where s: "step host ev p = Inr p1" and r: "run host evs p1 = Inr p'"
    by (rule run_Cons)
  have "\<forall>ws\<in>set (clients p1). greeted host ws \<and> handle ws < next_handle p1"
    using step_greeted [OF s] step_fresh [OF s] Cons.prems(2) by blast
  from Cons.IH [OF r this] show ?case .
qed

lemma step_quiet:
  assumes "step host ev p = Inr p'" and "\<not> accepted ev" and "h < next_handle p"
    and "\<forall>ws\<in>set (clients p). handle ws = h \<longrightarrow> sent ws = [g]"
  shows "h < next_handle p' \<and> (\<forall>ws\<in>set (clients p'). handle ws = h \<longrightarrow> sent ws = [g])"
proof (intro conjI ballI impI)
  show "h < next_handle p'" using step_next_handle [OF assms(1)] assms(3) by simp
next
  fix ws' assume m: "ws' \<in> set (clients p')" and h: "handle ws' = h"
  from step_sent [OF assms(1) m] assms(2,3) h obtain ws where "ws \<in> set (clients p)" "handle ws' = handle ws" "sent ws' = sent ws"
    by auto
  with assms(4) h show "sent ws' = [g]" by auto
qed

lemma run_quiet:
  assumes "run host evs p = Inr p'" and "\<not> list_ex accepted evs" and "h < next_handle p"
    and "\<forall>ws\<in>set (clients p). handle ws = h \<longrightarrow> sent ws = [g]"
  shows "\<forall>ws\<in>set (clients p'). handle ws = h \<longrightarrow> sent ws = [g]"
  using assms
proof (induction evs arbitrary: p)
  case Nil
  then show ?case by simp
next
  case (Cons ev evs)
  from Cons.prems(1) obtain p1 where s: "step host ev p = Inr p1" and r: "run host evs p1 = Inr p'"
    by (rule run_Cons)
  from Cons.prems(2) have q: "\<not> accepted ev" "\<not> list_ex accepted evs" by simp_all
  from step_quiet [OF s q(1) Cons.prems(3,4)]
  have "h < next_handle p1" "\<forall>ws\<in>set (clients p1). handle ws = h \<longrightarrow> sent ws = [g]" by simp_all
  from Cons.IH [OF r q(2) this] show ?case .
qed

lemma greeted_one_SYSTEM:
  assumes "list_all is_TELEMETRY ms"
  shows "\<not> list_ex is_SYSTEM ms"
  using assms by (induction ms) (auto dest: is_TELEMETRY_not_SYSTEM)


section \<open>The acknowledgement's broadcast count\<close>

text \<open>
  C1. A submission that passes line 78 is answered 200 when line 137 returns (and 400
  when it throws). The answer 200 is \<^verbatim>\<open>{"status":"ok","broadcast_count":n}\<close>,
  where \<open>n\<close> is \<^verbatim>\<open>wss.clients.size\<close>: the size of the registry, whatever the
  state of its members. The number of observers the message was handed to the transport
  for is the number of members that are OPEN. The two differ as soon as a registered
  client is not OPEN (the instance below: one OPEN and one CLOSING client, the answer
  says 2, one text was handed over).
\<close>

theorem broadcast_count_is_registry_size:
  assumes "schema_invalid telemetryData = Inr False"
    and "normalize now 0 [telemetryData] = Inr (envelope, store)"
  shows \<open>statusCode (fst (snd (on_end host now (Inr telemetryData) p))) =
            (if stringify_overflows host (telemetry_value (store ! envelope)) then 400 else 200)
    \<and> (\<not> stringify_overflows host (telemetry_value (store ! envelope)) \<longrightarrow>
         body (fst (snd (on_end host now (Inr telemetryData) p))) =
           ''{"status":"ok","broadcast_count":'' @ Number_toString host (real (length (clients p))) @ ''}''
       \<and> deliveredCount (clients p) (clients (snd (snd (on_end host now (Inr telemetryData) p)))) =
           length (filter (\<lambda>c. readyState c = OPEN) (clients p)))\<close>
proof (cases "stringify_overflows host (telemetry_value (store ! envelope))")
  case True
  then show ?thesis
    by (simp add: on_end_accepted_overflow [OF assms True])
next
  case False
  then show ?thesis
    by (simp add: on_end_accepted_sent [OF assms False] clients_broadcast ok_body_text deliveredCount_open)
qed

theorem broadcast_count_is_registry_size_witness:
  \<open>body (fst (snd (on_end (engine 1000) ''2026-11-03T10:00:00.000Z''
       (Inr (JObject [(''agentId'', JString ''Agent-01''), (''status'', JString ''working'')]))
       \<lparr>clients = [\<lparr>handle = 0, readyState = OPEN, sent = []\<rparr>, \<lparr>handle = 1, readyState = CLOSING, sent = []\<rparr>],
        next_handle = 2, broadcast_calls = [], serializations = 0\<rparr>))) = ''{"status":"ok","broadcast_count":2}''
   \<and> deliveredCount
        [\<lparr>handle = 0, readyState = OPEN, sent = []\<rparr>, \<lparr>handle = 1, readyState = CLOSING, sent = []\<rparr>]
        (clients (snd (snd (on_end (engine 1000) ''2026-11-03T10:00:00.000Z''
       (Inr (JObject [(''agentId'', JString ''Agent-01''), (''status'', JString ''working'')]))
       \<lparr>clients = [\<lparr>handle = 0, readyState = OPEN, sent = []\<rparr>, \<lparr>handle = 1, readyState = CLOSING, sent = []\<rparr>],
        next_handle = 2, broadcast_calls = [], serializations = 0\<rparr>)))) = 1\<close>
  using broadcast_count_is_registry_size
    [of "JObject [(''agentId'', JString ''Agent-01''), (''status'', JString ''working'')]" "''2026-11-03T10:00:00.000Z''" 0 "[JObject [(''agentId'', JString ''Agent-01''), (''status'', JString ''working''),
                     (''timestamp'', JString ''2026-11-03T10:00:00.000Z'')]]" "engine 1000"
        "\<lparr>clients = [\<lparr>handle = 0, readyState = OPEN, sent = []\<rparr>, \<lparr>handle = 1, readyState = CLOSING, sent = []\<rparr>],
        next_handle = 2, broadcast_calls = [], serializations = 0\<rparr>"]
  by (simp add: schema_invalid_def normalize_def fill_timestamp_def engine_def telemetry_value_def
      integral_toString_def)

section \<open>Fan-out\<close>

text \<open>
  C7 as stated fails. With an envelope nested more deeply than the host can print
  (here the metrics are an array nested 100000 deep), \<^verbatim>\<open>JSON.stringify\<close> of line
  137 throws a RangeError before the loop, and the registered OPEN client is sent
  nothing.
\<close>

theorem deep_envelope_is_sent_to_nobody:
  \<open>broadcast (engine 1000) (JObject [(''agentId'', JString ''Agent-01''), (''status'', JString ''working''),
                 (''timestamp'', JString ''2026-11-03T10:00:00.000Z''), (''metrics'', deep 100000)])
      \<lparr>clients = [\<lparr>handle = 0, readyState = OPEN, sent = []\<rparr>], next_handle = 1,
       broadcast_calls = [], serializations = 0\<rparr> =
     (Some RangeError,
      \<lparr>clients = [\<lparr>handle = 0, readyState = OPEN, sent = []\<rparr>], next_handle = 1,
       broadcast_calls = [JObject [(''agentId'', JString ''Agent-01''), (''status'', JString ''working''),
                 (''timestamp'', JString ''2026-11-03T10:00:00.000Z''), (''metrics'', deep 100000)]], serializations = 1\<rparr>)\<close>
  by (simp add: broadcast_def stringify_counted_def JSON_stringify_def engine_def telemetry_value_def
      nesting_deep)

text \<open>
  C7 as amended. Every call of \<^verbatim>\<open>broadcast\<close> calls \<^verbatim>\<open>JSON.stringify\<close> exactly
  once, on \<^verbatim>\<open>{type: 'TELEMETRY', payload: data}\<close>. When the call returns a text,
  that one text is appended once to the texts of every registered client that is OPEN,
  every other client is left exactly as it was, and nothing is thrown. When the call
  throws, the exception leaves \<^verbatim>\<open>broadcast\<close> and no client is sent anything. The
  loop (\<open>forEach_client\<close>) is given the text only.
\<close>

theorem broadcast_serializes_once_and_sends_once:
  "serializations (snd (broadcast host data p)) = Suc (serializations p)
   \<and> (\<forall>message. JSON_stringify host (telemetry_value data) = Inr message \<longrightarrow>
         broadcast host data p =
           (None,
            p\<lparr>clients := map (\<lambda>c. if readyState c = OPEN then c\<lparr>sent := sent c @ [message]\<rparr> else c)
                            (clients p),
              broadcast_calls := broadcast_calls p @ [data],
              serializations := Suc (serializations p)\<rparr>))
   \<and> (\<forall>e. JSON_stringify host (telemetry_value data) = Inl e \<longrightarrow>
         broadcast host data p =
           (Some e,
            p\<lparr>broadcast_calls := broadcast_calls p @ [data],
              serializations := Suc (serializations p)\<rparr>))"
  by (cases "JSON_stringify host (telemetry_value data)")
     (simp_all add: broadcast_def stringify_counted_def forEach_client_all)

theorem broadcast_serializes_once_and_sends_once_witness:
  \<open>JSON_stringify (engine 1000) (telemetry_value (JObject [(''agentId'', JString ''Agent-01''), (''status'', JString ''working''),
                 (''metrics'', JObject [(''cpu'', JNumber (Finite 50))]),
                 (''logs'', JArray [JString ''start'']),
                 (''timestamp'', JString ''2026-11-03T10:00:00.000Z'')])) = Inr ''{"type":"TELEMETRY","payload":{"agentId":"Agent-01","status":"working","metrics":{"cpu":50},"logs":["start"],"timestamp":"2026-11-03T10:00:00.000Z"}}''
   \<and> broadcast (engine 1000) (JObject [(''agentId'', JString ''Agent-01''), (''status'', JString ''working''),
                 (''metrics'', JObject [(''cpu'', JNumber (Finite 50))]),
                 (''logs'', JArray [JString ''start'']),
                 (''timestamp'', JString ''2026-11-03T10:00:00.000Z'')])
      \<lparr>clients = [\<lparr>handle = 0, readyState = OPEN, sent = [''{"type":"SYSTEM","message":"Connected to Mission Control Backend","timestamp":"2026-11-03T09:59:00.000Z"}'']\<rparr>,
                  \<lparr>handle = 1, readyState = CLOSED, sent = [''{"type":"SYSTEM","message":"Connected to Mission Control Backend","timestamp":"2026-11-03T09:59:00.000Z"}'']\<rparr>,
                  \<lparr>handle = 2, readyState = OPEN, sent = []\<rparr>],
       next_handle = 3, broadcast_calls = [], serializations = 0\<rparr> =
     (None,
      \<lparr>clients = [\<lparr>handle = 0, readyState = OPEN, sent = [''{"type":"SYSTEM","message":"Connected to Mission Control Backend","timestamp":"2026-11-03T09:59:00.000Z"}'', ''{"type":"TELEMETRY","payload":{"agentId":"Agent-01","status":"working","metrics":{"cpu":50},"logs":["start"],"timestamp":"2026-11-03T10:00:00.000Z"}}'']\<rparr>,
                  \<lparr>handle = 1, readyState = CLOSED, sent = [''{"type":"SYSTEM","message":"Connected to Mission Control Backend","timestamp":"2026-11-03T09:59:00.000Z"}'']\<rparr>,
                  \<lparr>handle = 2, readyState = OPEN, sent = [''{"type":"TELEMETRY","payload":{"agentId":"Agent-01","status":"working","metrics":{"cpu":50},"logs":["start"],"timestamp":"2026-11-03T10:00:00.000Z"}}'']\<rparr>],
       next_handle = 3, broadcast_calls = [JObject [(''agentId'', JString ''Agent-01''), (''status'', JString ''working''),
                 (''metrics'', JObject [(''cpu'', JNumber (Finite 50))]),
                 (''logs'', JArray [JString ''start'']),
                 (''timestamp'', JString ''2026-11-03T10:00:00.000Z'')]], serializations = 1\<rparr>)\<close>
proof -
  have s: \<open>JSON_stringify (engine 1000) (telemetry_value (JObject [(''agentId'', JString ''Agent-01''), (''status'', JString ''working''),
                 (''metrics'', JObject [(''cpu'', JNumber (Finite 50))]),
                 (''logs'', JArray [JString ''start'']),
                 (''timestamp'', JString ''2026-11-03T10:00:00.000Z'')])) = Inr ''{"type":"TELEMETRY","payload":{"agentId":"Agent-01","status":"working","metrics":{"cpu":50},"logs":["start"],"timestamp":"2026-11-03T10:00:00.000Z"}}''\<close>
    by (simp add: JSON_stringify_def engine_def telemetry_value_def QuoteJSONString_def escape_char_def
        integral_toString_def)
  from broadcast_serializes_once_and_sends_once
    [of "engine 1000" "JObject [(''agentId'', JString ''Agent-01''), (''status'', JString ''working''),
                 (''metrics'', JObject [(''cpu'', JNumber (Finite 50))]),
                 (''logs'', JArray [JString ''start'']),
                 (''timestamp'', JString ''2026-11-03T10:00:00.000Z'')]"
        \<open>\<lparr>clients = [\<lparr>handle = 0, readyState = OPEN, sent = [''{"type":"SYSTEM","message":"Connected to Mission Control Backend","timestamp":"2026-11-03T09:59:00.000Z"}'']\<rparr>,
                  \<lparr>handle = 1, readyState = CLOSED, sent = [''{"type":"SYSTEM","message":"Connected to Mission Control Backend","timestamp":"2026-11-03T09:59:00.000Z"}'']\<rparr>,
                  \<lparr>handle = 2, readyState = OPEN, sent = []\<rparr>],
       next_handle = 3, broadcast_calls = [], serializations = 0\<rparr>\<close>] s
  show ?thesis by simp
qed

text \<open>
  C2 as stated fails. A client whose connection is closing when the broadcast runs is
  still a member of the registry afterwards, and its state is still CLOSING: the
  broadcast neither marks it CLOSED nor removes it.
\<close>

theorem broadcast_keeps_closing_client:
  \<open>map handle (clients (snd (broadcast (engine 1000) (JObject [(''agentId'', JString ''Agent-01''), (''status'', JString ''working''),
                 (''metrics'', JObject [(''cpu'', JNumber (Finite 50))]),
                 (''logs'', JArray [JString ''start'']),
                 (''timestamp'', JString ''2026-11-03T10:00:00.000Z'')])
      \<lparr>clients = [\<lparr>handle = 0, readyState = CLOSING, sent = []\<rparr>,
                  \<lparr>handle = 1, readyState = OPEN, sent = []\<rparr>],
       next_handle = 2, broadcast_calls = [], serializations = 0\<rparr>))) = [0, 1]
   \<and> map readyState (clients (snd (broadcast (engine 1000) (JObject [(''agentId'', JString ''Agent-01''), (''status'', JString ''working''),
                 (''metrics'', JObject [(''cpu'', JNumber (Finite 50))]),
                 (''logs'', JArray [JString ''start'']),
                 (''timestamp'', JString ''2026-11-03T10:00:00.000Z'')])
      \<lparr>clients = [\<lparr>handle = 0, readyState = CLOSING, sent = []\<rparr>,
                  \<lparr>handle = 1, readyState = OPEN, sent = []\<rparr>],
       next_handle = 2, broadcast_calls = [], serializations = 0\<rparr>))) = [CLOSING, OPEN]\<close>
  by (simp add: clients_broadcast engine_def telemetry_value_def)

text \<open>
  C2 as amended. For every broadcast over any registry, a client that is not OPEN is
  skipped: nothing is handed over for it, and it stays in the registry with the state
  it had. Whatever the broadcast does, it changes neither the membership nor the order
  nor any state of the registry. Once line 137 has made the text, nothing is thrown and
  the text is handed over for every client that is OPEN, whatever the other clients
  are. When line 137 throws, nothing is handed over for any client.
\<close>

theorem broadcast_skips_clients_not_open:
  "map handle (clients (snd (broadcast host data p))) = map handle (clients p)
   \<and> map readyState (clients (snd (broadcast host data p))) = map readyState (clients p)
   \<and> (\<forall>message. JSON_stringify host (telemetry_value data) = Inr message \<longrightarrow>
         fst (broadcast host data p) = None
       \<and> map sent (clients (snd (broadcast host data p))) =
           map (\<lambda>c. if readyState c = OPEN then sent c @ [message] else sent c) (clients p))
   \<and> (\<forall>e. JSON_stringify host (telemetry_value data) = Inl e \<longrightarrow>
         map sent (clients (snd (broadcast host data p))) = map sent (clients p))"
proof (cases "stringify_overflows host (telemetry_value data)")
  case True
  then show ?thesis by (simp add: broadcast_overflow JSON_stringify_def)
next
  case False
  then show ?thesis
    by (auto simp: broadcast_sent JSON_stringify_def telemetry_message_def comp_def if_distrib cong: if_cong)
qed

theorem broadcast_skips_clients_not_open_witness:
  \<open>fst (broadcast (engine 1000) (JObject [(''agentId'', JString ''Agent-01''), (''status'', JString ''working''),
                 (''metrics'', JObject [(''cpu'', JNumber (Finite 50))]),
                 (''logs'', JArray [JString ''start'']),
                 (''timestamp'', JString ''2026-11-03T10:00:00.000Z'')])
      \<lparr>clients = [\<lparr>handle = 0, readyState = CLOSING, sent = []\<rparr>,
                  \<lparr>handle = 1, readyState = OPEN, sent = []\<rparr>],
       next_handle = 2, broadcast_calls = [], serializations = 0\<rparr>) = None
   \<and> map sent (clients (snd (broadcast (engine 1000) (JObject [(''agentId'', JString ''Agent-01''), (''status'', JString ''working''),
                 (''metrics'', JObject [(''cpu'', JNumber (Finite 50))]),
                 (''logs'', JArray [JString ''start'']),
                 (''timestamp'', JString ''2026-11-03T10:00:00.000Z'')])
      \<lparr>clients = [\<lparr>handle = 0, readyState = CLOSING, sent = []\<rparr>,
                  \<lparr>handle = 1, readyState = OPEN, sent = []\<rparr>],
       next_handle = 2, broadcast_calls = [], serializations = 0\<rparr>))) = [[], [''{"type":"TELEMETRY","payload":{"agentId":"Agent-01","status":"working","metrics":{"cpu":50},"logs":["start"],"timestamp":"2026-11-03T10:00:00.000Z"}}'']]\<close>
proof -
  have s: \<open>JSON_stringify (engine 1000) (telemetry_value (JObject [(''agentId'', JString ''Agent-01''), (''status'', JString ''working''),
                 (''metrics'', JObject [(''cpu'', JNumber (Finite 50))]),
                 (''logs'', JArray [JString ''start'']),
                 (''timestamp'', JString ''2026-11-03T10:00:00.000Z'')])) = Inr ''{"type":"TELEMETRY","payload":{"agentId":"Agent-01","status":"working","metrics":{"cpu":50},"logs":["start"],"timestamp":"2026-11-03T10:00:00.000Z"}}''\<close>
    by (simp add: JSON_stringify_def engine_def telemetry_value_def QuoteJSONString_def escape_char_def
        integral_toString_def)
  from broadcast_skips_clients_not_open
    [of "engine 1000" "JObject [(''agentId'', JString ''Agent-01''), (''status'', JString ''working''),
                 (''metrics'', JObject [(''cpu'', JNumber (Finite 50))]),
                 (''logs'', JArray [JString ''start'']),
                 (''timestamp'', JString ''2026-11-03T10:00:00.000Z'')]"
        \<open>\<lparr>clients = [\<lparr>handle = 0, readyState = CLOSING, sent = []\<rparr>,
                  \<lparr>handle = 1, readyState = OPEN, sent = []\<rparr>],
       next_handle = 2, broadcast_calls = [], serializations = 0\<rparr>\<close>] s
  show ?thesis by simp
qed

section \<open>Rejected submissions\<close>

text \<open>
  C3. The body \<^verbatim>\<open>null\<close> is a JSON text, and the value it parses to has no
  agentId. The read of \<^verbatim>\<open>telemetryData.agentId\<close> in line 78 throws a TypeError
  on it, the \<^verbatim>\<open>catch\<close> of line 97 takes it, and the answer is 400 with the body
  \<^verbatim>\<open>{"error":"Invalid JSON"}\<close>, not the schema error. Nothing is broadcast. Every
  other parsed value is answered as C3 says (lemma \<open>missing_or_empty_rejected\<close>).
\<close>

theorem null_body_is_answered_invalid_json:
  \<open>Get JNull ''agentId'' = Inl TypeError
   \<and> on_end host now (Inr JNull) p =
     (None, \<lparr>headersSent = True, statusCode = 400, finished = True, body = ''{"error":"Invalid JSON"}''\<rparr>, p)\<close>
  by (simp add: on_end_throws schema_invalid_def)

theorem null_body_is_answered_invalid_json_witness:
  \<open>on_end (engine 1000) ''2026-11-03T10:00:00.000Z'' (Inr JNull)
      \<lparr>clients = [\<lparr>handle = 0, readyState = OPEN, sent = [''{"type":"SYSTEM","message":"Connected to Mission Control Backend","timestamp":"2026-11-03T09:59:00.000Z"}'']\<rparr>], next_handle = 1,
       broadcast_calls = [], serializations = 0\<rparr> =
     (None, \<lparr>headersSent = True, statusCode = 400, finished = True, body = ''{"error":"Invalid JSON"}''\<rparr>,
      \<lparr>clients = [\<lparr>handle = 0, readyState = OPEN, sent = [''{"type":"SYSTEM","message":"Connected to Mission Control Backend","timestamp":"2026-11-03T09:59:00.000Z"}'']\<rparr>], next_handle = 1,
       broadcast_calls = [], serializations = 0\<rparr>)\<close>
  using null_body_is_answered_invalid_json
    [of "engine 1000" "''2026-11-03T10:00:00.000Z''"
        \<open>\<lparr>clients = [\<lparr>handle = 0, readyState = OPEN, sent = [''{"type":"SYSTEM","message":"Connected to Mission Control Backend","timestamp":"2026-11-03T09:59:00.000Z"}'']\<rparr>], next_handle = 1,
       broadcast_calls = [], serializations = 0\<rparr>\<close>]
  by simp

text \<open>
  C10. A submission that is an object in which agentId or status is there with the
  value 0, false or null is answered with status 400 and the schema error, and the
  process is as before (no call of broadcast, nothing handed to any client). The
  answer and the process are the same as for the object without that field.
\<close>

theorem falsy_required_field_is_rejected:
  assumes "f = ''agentId'' \<or> f = ''status''"
    and "map_of props f = Some x"
    and "x = JNumber (Finite 0) \<or> x = JBoolean False \<or> x = JNull"
  shows \<open>on_end host now (Inr (JObject props)) p =
     (None, \<lparr>headersSent = True, statusCode = 400, finished = True,
             body = ''{"error":"Invalid schema: agentId and status are required."}''\<rparr>, p)
   \<and> on_end host now (Inr (JObject (filter (\<lambda>kv. fst kv \<noteq> f) props))) p =
       on_end host now (Inr (JObject props)) p\<close>
proof -
  have falsy: "\<not> ToBoolean (map_of props f)"
    using assms(2,3) by auto
  have "schema_invalid (JObject props) = Inr True"
    using assms(1) falsy by (auto simp: schema_invalid_object)
  then have a: \<open>on_end host now (Inr (JObject props)) p =
     (None, \<lparr>headersSent = True, statusCode = 400, finished = True,
             body = ''{"error":"Invalid schema: agentId and status are required."}''\<rparr>, p)\<close>
    by (rule on_end_rejected)
  have "map_of (filter (\<lambda>kv. fst kv \<noteq> f) props) f = None"
    by (induction props) auto
  then have "schema_invalid (JObject (filter (\<lambda>kv. fst kv \<noteq> f) props)) = Inr True"
    using assms(1) by (auto simp: schema_invalid_object)
  then have \<open>on_end host now (Inr (JObject (filter (\<lambda>kv. fst kv \<noteq> f) props))) p =
     (None, \<lparr>headersSent = True, statusCode = 400, finished = True,
             body = ''{"error":"Invalid schema: agentId and status are required."}''\<rparr>, p)\<close>
    by (rule on_end_rejected)
  with a show ?thesis by simp
qed

theorem falsy_required_field_is_rejected_witness:
  \<open>on_end (engine 1000) ''2026-11-03T10:00:00.000Z''
      (Inr (JObject [(''agentId'', JNumber (Finite 0)), (''status'', JString ''working'')])) initial =
     (None, \<lparr>headersSent = True, statusCode = 400, finished = True,
             body = ''{"error":"Invalid schema: agentId and status are required."}''\<rparr>, initial)
   \<and> on_end (engine 1000) ''2026-11-03T10:00:00.000Z'' (Inr (JObject [(''status'', JString ''working'')])) initial =
     on_end (engine 1000) ''2026-11-03T10:00:00.000Z''
      (Inr (JObject [(''agentId'', JNumber (Finite 0)), (''status'', JString ''working'')])) initial\<close>
  using falsy_required_field_is_rejected
    [of "''agentId''" "[(''agentId'', JNumber (Finite 0)), (''status'', JString ''working'')]"
        "JNumber (Finite 0)" "engine 1000" "''2026-11-03T10:00:00.000Z''" initial]
  by simp

section \<open>Unparseable bodies\<close>

text \<open>
  C4. A request body that \<^verbatim>\<open>JSON.parse\<close> rejects is answered with status 400 and
  exactly the body \<^verbatim>\<open>{"error":"Invalid JSON"}\<close>. The process is as before: no
  call of broadcast and nothing sent to any client. No exception leaves the callback,
  so the run goes on.
\<close>

theorem unparseable_body_is_invalid_json:
  \<open>on_end host now (Inl SyntaxError) p =
     (None, \<lparr>headersSent = True, statusCode = 400, finished = True, body = ''{"error":"Invalid JSON"}''\<rparr>, p)
   \<and> step host (TelemetryEnd (Inl SyntaxError) now) p = Inr p\<close>
  by (simp add: on_end_unparseable)

theorem unparseable_body_is_invalid_json_witness:
  \<open>on_end (engine 1000) ''2026-11-03T10:00:00.000Z'' (Inl SyntaxError)
      \<lparr>clients = [\<lparr>handle = 0, readyState = OPEN, sent = []\<rparr>], next_handle = 1, broadcast_calls = [],
       serializations = 0\<rparr> =
     (None, \<lparr>headersSent = True, statusCode = 400, finished = True, body = ''{"error":"Invalid JSON"}''\<rparr>,
      \<lparr>clients = [\<lparr>handle = 0, readyState = OPEN, sent = []\<rparr>], next_handle = 1, broadcast_calls = [],
       serializations = 0\<rparr>)\<close>
  using unparseable_body_is_invalid_json
    [of "engine 1000" "''2026-11-03T10:00:00.000Z''"
        "\<lparr>clients = [\<lparr>handle = 0, readyState = OPEN, sent = []\<rparr>], next_handle = 1, broadcast_calls = [],
       serializations = 0\<rparr>"]
  by simp

section \<open>The timestamp\<close>

text \<open>
  C5 as stated fails. A submission whose timestamp is the number 0 supplies a timestamp
  that is neither absent nor the empty string; the envelope that is broadcast carries
  the server's time in its place.
\<close>

theorem numeric_zero_timestamp_is_replaced:
  \<open>broadcast_calls (snd (snd (on_end (engine 1000) ''2026-11-03T10:00:00.000Z''
      (Inr (JObject [(''agentId'', JString ''Agent-01''), (''status'', JString ''working''),
                     (''timestamp'', JNumber (Finite 0))])) initial))) =
     [JObject [(''agentId'', JString ''Agent-01''), (''status'', JString ''working''),
                     (''timestamp'', JString ''2026-11-03T10:00:00.000Z'')]]\<close>
  by (simp add: initial_def on_connection_def ws_send_def system_message_def telemetry_message_def
      telemetry_value_def QuoteJSONString_def escape_char_def integral_toString_def set_state_def
      on_end_def telemetry_try_def JSON_parse_result_def schema_invalid_def normalize_def
      fill_timestamp_def broadcast_def stringify_counted_def JSON_stringify_def forEach_client_all
      engine_def console_log_received_def writeHead_def res_end_def new_response_def)

text \<open>
  C5 as amended. For every submission that passes the check of line 78,
  \<^verbatim>\<open>broadcast\<close> is called with the envelope, and the envelope carries the server's
  time as its timestamp exactly when the submission's timestamp is absent or falsy
  (the empty string, 0, false or null). A truthy timestamp is passed through
  unvalidated: the envelope is the submission unchanged, whatever the timestamp's
  format, and no check of the timestamp rejects the submission. The answer is 200
  whenever line 137 returns.
\<close>

theorem timestamp_filled_when_falsy:
  assumes "schema_invalid telemetryData = Inr False"
  shows "\<exists>timestamp envelope.
           Get telemetryData ''timestamp'' = Inr timestamp
         \<and> broadcast_calls (snd (snd (on_end host now (Inr telemetryData) p))) = broadcast_calls p @ [envelope]
         \<and> Get envelope ''timestamp'' = Inr (if ToBoolean timestamp then timestamp else Some (JString now))
         \<and> (ToBoolean timestamp \<longrightarrow> envelope = telemetryData)
         \<and> (\<not> stringify_overflows host (telemetry_value envelope) \<longrightarrow>
              statusCode (fst (snd (on_end host now (Inr telemetryData) p))) = 200)"
proof -
  from assms obtain props where v: "telemetryData = JObject props"
    using schema_valid_is_object by blast
  let ?e = "if ToBoolean (map_of props ''timestamp'') then JObject props
            else JObject (put ''timestamp'' (JString now) props)"
  have f: "normalize now 0 [telemetryData] = Inr (0, [?e])"
    by (simp add: v normalize_object)
  have g: "Get ?e ''timestamp'' =
          Inr (if ToBoolean (map_of props ''timestamp'') then map_of props ''timestamp'' else Some (JString now))"
    by (simp add: map_of_put)
  have t: "Get telemetryData ''timestamp'' = Inr (map_of props ''timestamp'')"
    by (simp add: v)
  have u: "ToBoolean (map_of props ''timestamp'') \<longrightarrow> ?e = telemetryData"
    by (simp add: v)
  have c: "broadcast_calls (snd (snd (on_end host now (Inr telemetryData) p))) = broadcast_calls p @ [?e]"
  proof (cases "stringify_overflows host (telemetry_value ([?e] ! 0))")
    case True
    show ?thesis by (simp add: on_end_accepted_overflow [OF assms f True] broadcast_calls_broadcast)
  next
    case False
    show ?thesis by (simp add: on_end_accepted_sent [OF assms f False] broadcast_calls_broadcast)
  qed
  have s: "\<not> stringify_overflows host (telemetry_value ?e) \<longrightarrow>
              statusCode (fst (snd (on_end host now (Inr telemetryData) p))) = 200"
  proof
    assume "\<not> stringify_overflows host (telemetry_value ?e)"
    then have n: "\<not> stringify_overflows host (telemetry_value ([?e] ! 0))" by simp
    show "statusCode (fst (snd (on_end host now (Inr telemetryData) p))) = 200"
      by (simp add: on_end_accepted_sent [OF assms f n])
  qed
  from t c g u s show ?thesis by blast
qed

theorem timestamp_filled_when_falsy_witness:
  \<open>broadcast_calls (snd (snd (on_end (engine 1000) ''2026-11-03T10:00:00.000Z''
      (Inr (JObject [(''agentId'', JString ''Agent-01''), (''status'', JString ''working''),
                     (''timestamp'', JString ''yesterday-ish'')])) initial))) =
     [JObject [(''agentId'', JString ''Agent-01''), (''status'', JString ''working''),
                     (''timestamp'', JString ''yesterday-ish'')]]\<close>
  using timestamp_filled_when_falsy
    [of "JObject [(''agentId'', JString ''Agent-01''), (''status'', JString ''working''),
                     (''timestamp'', JString ''yesterday-ish'')]"
        "engine 1000" "''2026-11-03T10:00:00.000Z''" initial]
  by (auto simp: schema_invalid_def initial_def)

section \<open>Normalization and the submitted record\<close>




section \<open>Envelopes that reach the broadcast\<close>




section \<open>The greeting\<close>

text \<open>
  C9. In every run of the server from its start, the texts handed over for a registered
  client begin with the greeting \<^verbatim>\<open>{type: 'SYSTEM', message, timestamp}\<close> that
  the connection handler sent it, every later text is a telemetry message, and none of
  them is a second SYSTEM message. For the client of a connection, as long as no
  submission has been accepted since it connected, the greeting is all it was sent.
\<close>

theorem greeting_precedes_telemetry:
  assumes "run host evs initial = Inr p1"
    and "run host (Connection now # evs') p1 = Inr p"
    and "ws \<in> set (clients p)"
  shows "(\<exists>t ms. sent ws = system_message host t # ms \<and> is_SYSTEM (system_message host t)
            \<and> list_all is_TELEMETRY ms \<and> \<not> list_ex is_SYSTEM ms)
       \<and> (handle ws = next_handle p1 \<and> \<not> list_ex accepted evs' \<longrightarrow> sent ws = [system_message host now])"
proof
  have i1: "\<forall>ws\<in>set (clients p1). greeted host ws \<and> handle ws < next_handle p1"
    by (rule run_invariant [OF assms(1)]) (simp add: initial_def)
  from run_invariant [OF assms(2) i1] assms(3) obtain t ms where
    "sent ws = system_message host t # ms" "list_all is_TELEMETRY ms"
    by blast
  then show "\<exists>t ms. sent ws = system_message host t # ms \<and> is_SYSTEM (system_message host t)
            \<and> list_all is_TELEMETRY ms \<and> \<not> list_ex is_SYSTEM ms"
    using is_SYSTEM_system_message greeted_one_SYSTEM by blast
  show "handle ws = next_handle p1 \<and> \<not> list_ex accepted evs' \<longrightarrow> sent ws = [system_message host now]"
  proof
    assume a: "handle ws = next_handle p1 \<and> \<not> list_ex accepted evs'"
    let ?p2 = "p1\<lparr>clients := clients p1 @ [\<lparr>handle = next_handle p1, readyState = OPEN, sent = [system_message host now]\<rparr>],
                  next_handle := Suc (next_handle p1)\<rparr>"
    have s: "step host (Connection now) p1 = Inr ?p2"
      by (simp add: on_connection_def ws_send_def)
    with assms(2) have r: "run host evs' ?p2 = Inr p" by simp
    have "\<forall>ws\<in>set (clients ?p2). handle ws = next_handle p1 \<longrightarrow> sent ws = [system_message host now]"
      using i1 by auto
    from run_quiet [OF r _ _ this] a assms(3) show "sent ws = [system_message host now]" by simp
  qed
qed

theorem greeting_precedes_telemetry_witness:
  \<open>run (engine 1000) [Connection ''2026-11-03T09:59:00.000Z''] initial =
     Inr \<lparr>clients = [\<lparr>handle = 0, readyState = OPEN, sent = [''{"type":"SYSTEM","message":"Connected to Mission Control Backend","timestamp":"2026-11-03T09:59:00.000Z"}'']\<rparr>], next_handle = 1,
       broadcast_calls = [], serializations = 0\<rparr>
   \<and> run (engine 1000)
        [Connection ''2026-11-03T09:59:30.000Z'',
         TelemetryEnd (Inr (JObject [(''status'', JString ''working'')])) ''2026-11-03T09:59:40.000Z'',
         StateChange 0 CLOSING]
        \<lparr>clients = [\<lparr>handle = 0, readyState = OPEN, sent = [''{"type":"SYSTEM","message":"Connected to Mission Control Backend","timestamp":"2026-11-03T09:59:00.000Z"}'']\<rparr>], next_handle = 1,
       broadcast_calls = [], serializations = 0\<rparr> =
     Inr \<lparr>clients = [\<lparr>handle = 0, readyState = CLOSING, sent = [''{"type":"SYSTEM","message":"Connected to Mission Control Backend","timestamp":"2026-11-03T09:59:00.000Z"}'']\<rparr>,
                      \<lparr>handle = 1, readyState = OPEN, sent = [''{"type":"SYSTEM","message":"Connected to Mission Control Backend","timestamp":"2026-11-03T09:59:30.000Z"}'']\<rparr>],
          next_handle = 2, broadcast_calls = [], serializations = 0\<rparr>
   \<and> sent \<lparr>handle = 1, readyState = OPEN, sent = [''{"type":"SYSTEM","message":"Connected to Mission Control Backend","timestamp":"2026-11-03T09:59:30.000Z"}'']\<rparr> =
       [system_message (engine 1000) ''2026-11-03T09:59:30.000Z'']\<close>
proof -
  have r1: \<open>run (engine 1000) [Connection ''2026-11-03T09:59:00.000Z''] initial =
     Inr \<lparr>clients = [\<lparr>handle = 0, readyState = OPEN, sent = [''{"type":"SYSTEM","message":"Connected to Mission Control Backend","timestamp":"2026-11-03T09:59:00.000Z"}'']\<rparr>], next_handle = 1,
       broadcast_calls = [], serializations = 0\<rparr>\<close>
    by (simp add: initial_def on_connection_def ws_send_def system_message_def telemetry_message_def
      telemetry_value_def QuoteJSONString_def escape_char_def integral_toString_def set_state_def
      on_end_def telemetry_try_def JSON_parse_result_def schema_invalid_def normalize_def
      fill_timestamp_def broadcast_def stringify_counted_def JSON_stringify_def forEach_client_all
      engine_def console_log_received_def writeHead_def res_end_def new_response_def)
  have r2: \<open>run (engine 1000)
        (Connection ''2026-11-03T09:59:30.000Z'' #
         [TelemetryEnd (Inr (JObject [(''status'', JString ''working'')])) ''2026-11-03T09:59:40.000Z'',
          StateChange 0 CLOSING])
        \<lparr>clients = [\<lparr>handle = 0, readyState = OPEN, sent = [''{"type":"SYSTEM","message":"Connected to Mission Control Backend","timestamp":"2026-11-03T09:59:00.000Z"}'']\<rparr>], next_handle = 1,
       broadcast_calls = [], serializations = 0\<rparr> =
     Inr \<lparr>clients = [\<lparr>handle = 0, readyState = CLOSING, sent = [''{"type":"SYSTEM","message":"Connected to Mission Control Backend","timestamp":"2026-11-03T09:59:00.000Z"}'']\<rparr>,
                      \<lparr>handle = 1, readyState = OPEN, sent = [''{"type":"SYSTEM","message":"Connected to Mission Control Backend","timestamp":"2026-11-03T09:59:30.000Z"}'']\<rparr>],
          next_handle = 2, broadcast_calls = [], serializations = 0\<rparr>\<close>
    by (simp add: initial_def on_connection_def ws_send_def system_message_def telemetry_message_def
      telemetry_value_def QuoteJSONString_def escape_char_def integral_toString_def set_state_def
      on_end_def telemetry_try_def JSON_parse_result_def schema_invalid_def normalize_def
      fill_timestamp_def broadcast_def stringify_counted_def JSON_stringify_def forEach_client_all
      engine_def console_log_received_def writeHead_def res_end_def new_response_def)
  have m: \<open>\<lparr>handle = 1, readyState = OPEN, sent = [''{"type":"SYSTEM","message":"Connected to Mission Control Backend","timestamp":"2026-11-03T09:59:30.000Z"}'']\<rparr>
      \<in> set (clients \<lparr>clients = [\<lparr>handle = 0, readyState = CLOSING, sent = [''{"type":"SYSTEM","message":"Connected to Mission Control Backend","timestamp":"2026-11-03T09:59:00.000Z"}'']\<rparr>,
                      \<lparr>handle = 1, readyState = OPEN, sent = [''{"type":"SYSTEM","message":"Connected to Mission Control Backend","timestamp":"2026-11-03T09:59:30.000Z"}'']\<rparr>],
          next_handle = 2, broadcast_calls = [], serializations = 0\<rparr>)\<close>
    by simp
  have q: \<open>\<not> list_ex accepted
        [TelemetryEnd (Inr (JObject [(''status'', JString ''working'')])) ''2026-11-03T09:59:40.000Z'',
         StateChange 0 CLOSING]\<close>
    by (simp add: accepted_def schema_invalid_def)
  from greeting_precedes_telemetry [OF r1 r2 m] q
  have \<open>sent \<lparr>handle = 1, readyState = OPEN, sent = [''{"type":"SYSTEM","message":"Connected to Mission Control Backend","timestamp":"2026-11-03T09:59:30.000Z"}'']\<rparr> =
       [system_message (engine 1000) ''2026-11-03T09:59:30.000Z'']\<close>
    by simp
  with r1 r2 show ?thesis by simp
qed

end
